theory Spec2Isabelle
  imports Complex_Main "HOL-Library.Multiset"
begin

section \<open>Python values the analysis core works on\<close>

text \<open>
  The three analysis functions of the backend (\<^verbatim>\<open>analyzer.py\<close>, \<^verbatim>\<open>risk_module.py\<close>,
  \<^verbatim>\<open>stats_module.py\<close>) take a list of dictionaries. The keys they read are
  \<^verbatim>\<open>latitude\<close>, \<^verbatim>\<open>longitude\<close>, \<^verbatim>\<open>datetime\<close> and \<^verbatim>\<open>landmark_name\<close>; the callers in
  \<^verbatim>\<open>app.py\<close> always create these keys and store \<^verbatim>\<open>None\<close> where a value is unknown, so a
  field is an option and \<open>None\<close> is Python's \<^verbatim>\<open>None\<close>.

  Python floats are idealised: a finite float is a real number and arithmetic on it is
  exact; the only non-finite value the code produces is \<^verbatim>\<open>float("inf")\<close>.
\<close>

datatype py_error = TypeError | KeyError | ValueError

datatype pyfloat = FloatVal real | FloatInf

record point =
  filename :: string
  latitude :: "real option"
  longitude :: "real option"
  datetime :: "string option"
  landmark_name :: "string option"

text \<open>
  What the code observes of a parsed \<^verbatim>\<open>datetime.datetime\<close>: its position on the time line
  in microseconds (what comparison and subtraction use), its \<^verbatim>\<open>hour\<close> field, and whether it
  carries a time zone. Python refuses to compare or subtract a naive and an aware value
  (\<^verbatim>\<open>TypeError\<close>).
\<close>

record dtime =
  dt_instant :: int
  dt_hour :: nat
  dt_aware :: bool

text \<open>
  Functions of third-party libraries and of the Python runtime that the code calls and that
  are not part of the repository. They are parameters of the model:
  \<^item> \<open>parse\<close> is \<^verbatim>\<open>dateutil.parser.parse\<close> on a string (\<open>Inl\<close>: it raises);
  \<^item> \<open>geodesic\<close> is \<^verbatim>\<open>geopy.distance.geodesic(c1, c2).kilometers\<close> on two coordinate
    tuples, passed as the code passes them (\<open>Inl\<close>: it raises, as for a latitude out of range);
  \<^item> \<open>float_str\<close> is the text an f-string produces for a float.
\<close>

record lib =
  parse :: "string \<Rightarrow> py_error + dtime"
  geodesic :: "real option \<times> real option \<Rightarrow> real option \<times> real option \<Rightarrow> py_error + real"
  float_str :: "pyfloat \<Rightarrow> string"

subsection \<open>Truthiness, rounding, comparison\<close>

definition truthy_num :: "real option \<Rightarrow> bool" where
  "truthy_num v = (case v of None \<Rightarrow> False | Some x \<Rightarrow> x \<noteq> 0)"

definition truthy_str :: "string option \<Rightarrow> bool" where
  "truthy_str v = (case v of None \<Rightarrow> False | Some s \<Rightarrow> s \<noteq> [])"

text \<open>\<^verbatim>\<open>round(x, ndigits)\<close> on a float: to the nearest multiple of \<open>10 ^ -ndigits\<close>, a tie to
  the even one.\<close>

definition round_half_even :: "real \<Rightarrow> int" where
  "round_half_even y =
     (let f = \<lfloor>y\<rfloor>; d = y - of_int f
      in if d < 1 / 2 then f else if 1 / 2 < d then f + 1
         else if even f then f else f + 1)"

definition py_round :: "nat \<Rightarrow> real \<Rightarrow> real" where
  "py_round ndigits x = of_int (round_half_even (x * 10 ^ ndigits)) / 10 ^ ndigits"

fun float_round :: "nat \<Rightarrow> pyfloat \<Rightarrow> pyfloat" where
  "float_round ndigits (FloatVal x) = FloatVal (py_round ndigits x)"
| "float_round ndigits FloatInf = FloatInf"

fun float_gt :: "pyfloat \<Rightarrow> real \<Rightarrow> bool" where
  "float_gt (FloatVal x) c = (c < x)"
| "float_gt FloatInf c = True"

subsection \<open>Running a fallible function over a list\<close>

fun try_map :: "('a \<Rightarrow> py_error + 'b) \<Rightarrow> 'a list \<Rightarrow> py_error + 'b list" where
  "try_map f [] = Inr []"
| "try_map f (x # xs) =
     (case f x of Inl e \<Rightarrow> Inl e
      | Inr y \<Rightarrow> (case try_map f xs of Inl e \<Rightarrow> Inl e | Inr ys \<Rightarrow> Inr (y # ys)))"

section \<open>\<^verbatim>\<open>analyzer.py\<close>\<close>

record movement_metrics =
  distance_km :: real
  time_diff_hours :: real
  speed_kmh :: pyfloat

text \<open>\<^verbatim>\<open>calculate_velocity\<close> returns either the metrics dictionary or, from its
  \<^verbatim>\<open>except Exception\<close> branch, a dictionary with the key \<^verbatim>\<open>error\<close>.\<close>

datatype velocity_result = Metrics movement_metrics | VelocityError py_error

record timeline_entry =
  point :: point
  flagged :: bool
  reason :: "string option"
  movement_metrics :: "movement_metrics option"

datatype timeline_result =
    Timeline (chronological_timeline: "timeline_entry list") (total_points_analyzed: nat)
  | DateCastingError (timeline: "point list")

text \<open>\<^verbatim>\<open>dateutil.parser.parse(p["datetime"])\<close>: the parser raises \<^verbatim>\<open>TypeError\<close> on \<^verbatim>\<open>None\<close>.\<close>

definition parse_datetime :: "lib \<Rightarrow> point \<Rightarrow> py_error + dtime" where
  "parse_datetime L p = (case datetime p of None \<Rightarrow> Inl TypeError | Some s \<Rightarrow> parse L s)"

text \<open>\<^verbatim>\<open>t2 - t1\<close> on two datetimes, in microseconds, and \<^verbatim>\<open>timedelta.total_seconds()\<close>.\<close>

definition dt_sub :: "dtime \<Rightarrow> dtime \<Rightarrow> py_error + int" where
  "dt_sub t2 t1 =
     (if dt_aware t2 = dt_aware t1 then Inr (dt_instant t2 - dt_instant t1) else Inl TypeError)"

definition total_seconds :: "int \<Rightarrow> real" where
  "total_seconds us = of_int us / 1000000"

definition calculate_velocity :: "lib \<Rightarrow> point \<Rightarrow> point \<Rightarrow> velocity_result" where
  "calculate_velocity L p1 p2 =
     (let coord1 = (latitude p1, longitude p1);
          coord2 = (latitude p2, longitude p2)
      in case geodesic L coord1 coord2 of Inl e \<Rightarrow> VelocityError e
         | Inr distance \<Rightarrow>
      (case parse_datetime L p1 of Inl e \<Rightarrow> VelocityError e
         | Inr t1 \<Rightarrow>
      (case parse_datetime L p2 of Inl e \<Rightarrow> VelocityError e
         | Inr t2 \<Rightarrow>
      (case dt_sub t2 t1 of Inl e \<Rightarrow> VelocityError e
         | Inr delta \<Rightarrow>
       let time_diff = \<bar>total_seconds delta\<bar> / 3600;
           speed = (if time_diff = 0 then FloatInf else FloatVal (distance / time_diff))
       in Metrics \<lparr>distance_km = py_round 2 distance,
                    time_diff_hours = py_round 2 time_diff,
                    speed_kmh = float_round 2 speed\<rparr>))))"

text \<open>
  \<^verbatim>\<open>sorted(ps, key=lambda p: dateutil.parser.parse(p["datetime"]))\<close>. Python computes every
  key first, so one timestamp that does not parse makes the call raise. It then sorts
  stably by comparing keys; a list that holds both a naive and an aware key cannot be
  sorted without comparing one with the other, which raises \<^verbatim>\<open>TypeError\<close>. The result of a
  stable sort is determined by the keys, so \<^const>\<open>sort_key\<close> stands for it.
\<close>

definition comparable :: "dtime list \<Rightarrow> bool" where
  "comparable ks = list_all (\<lambda>k. list_all (\<lambda>k'. dt_aware k = dt_aware k') ks) ks"

definition sorted_by_datetime :: "lib \<Rightarrow> point list \<Rightarrow> py_error + point list" where
  "sorted_by_datetime L ps =
     (case try_map (parse_datetime L) ps of Inl e \<Rightarrow> Inl e
      | Inr ks \<Rightarrow>
          if comparable ks
          then Inr (map snd (sort_key (\<lambda>kp. dt_instant (fst kp)) (zip ks ps)))
          else Inl TypeError)"

definition valid_point :: "point \<Rightarrow> bool" where
  "valid_point p \<longleftrightarrow>
     truthy_num (latitude p) \<and> truthy_num (longitude p) \<and> truthy_str (datetime p)"

definition flag_reason :: "lib \<Rightarrow> pyfloat \<Rightarrow> string" where
  "flag_reason L s = ''Impossible velocity detected: '' @ float_str L s @ '' km/h''"

text \<open>The body of the loop \<^verbatim>\<open>for i in range(len(sorted_points))\<close>.\<close>

definition analyse_at :: "lib \<Rightarrow> point list \<Rightarrow> nat \<Rightarrow> timeline_entry" where
  "analyse_at L sorted_points i =
     (let current = sorted_points ! i;
          analysis = \<lparr>point = current, flagged = False, reason = None,
                      movement_metrics = None\<rparr>
      in if 0 < i then
           (let previous = sorted_points ! (i - 1)
            in case calculate_velocity L previous current of
                 VelocityError e \<Rightarrow> analysis
               | Metrics m \<Rightarrow>
                   if float_gt (speed_kmh m) 1000
                   then analysis\<lparr>movement_metrics := Some m, flagged := True,
                                 reason := Some (flag_reason L (speed_kmh m))\<rparr>
                   else analysis\<lparr>movement_metrics := Some m\<rparr>)
         else analysis)"

definition analyze_timeline :: "lib \<Rightarrow> point list \<Rightarrow> timeline_result" where
  "analyze_timeline L points =
     (let valid_points = filter valid_point points
      in case sorted_by_datetime L valid_points of
           Inl e \<Rightarrow> DateCastingError points
         | Inr sorted_points \<Rightarrow>
             Timeline (map (analyse_at L sorted_points) [0..<length sorted_points])
                      (length valid_points))"

section \<open>\<^verbatim>\<open>risk_module.py\<close>\<close>

record risk_assessment =
  risk_score :: int
  risk_level :: string

text \<open>The loop \<^verbatim>\<open>for i in range(len(valid_data) - 1)\<close> over consecutive pairs, with its two
  accumulators \<^verbatim>\<open>total_distance\<close> and \<^verbatim>\<open>max_jump\<close>. The call of \<^verbatim>\<open>geodesic\<close> is not inside a
  \<^verbatim>\<open>try\<close>.\<close>

fun distance_loop :: "lib \<Rightarrow> point list \<Rightarrow> real \<times> real \<Rightarrow> py_error + real \<times> real" where
  "distance_loop L (a # b # rest) (total_distance, max_jump) =
     (case geodesic L (latitude a, longitude a) (latitude b, longitude b) of
        Inl e \<Rightarrow> Inl e
      | Inr dist_km \<Rightarrow>
          distance_loop L (b # rest)
            (total_distance + dist_km, if max_jump < dist_km then dist_km else max_jump))"
| "distance_loop L ps acc = Inr acc"

text \<open>\<^verbatim>\<open>(round(loc["latitude"], 4), round(loc["longitude"], 4))\<close>: \<^verbatim>\<open>round\<close> raises
  \<^verbatim>\<open>TypeError\<close> on \<^verbatim>\<open>None\<close>.\<close>

definition rounded_coord :: "point \<Rightarrow> py_error + real \<times> real" where
  "rounded_coord loc =
     (case latitude loc of None \<Rightarrow> Inl TypeError
      | Some la \<Rightarrow>
          (case longitude loc of None \<Rightarrow> Inl TypeError
           | Some lo \<Rightarrow> Inr (py_round 4 la, py_round 4 lo)))"

text \<open>\<^verbatim>\<open>collections.Counter\<close>: the keys in the order they were first seen, each with its count.\<close>

fun counter_add :: "'a \<Rightarrow> ('a \<times> nat) list \<Rightarrow> ('a \<times> nat) list" where
  "counter_add x [] = [(x, 1)]"
| "counter_add x ((y, n) # rest) =
     (if x = y then (y, Suc n) # rest else (y, n) # counter_add x rest)"

definition counter :: "'a list \<Rightarrow> ('a \<times> nat) list" where
  "counter xs = foldl (\<lambda>c x. counter_add x c) [] xs"

text \<open>The loop over all of \<^verbatim>\<open>locations_data\<close> whose body is a \<^verbatim>\<open>try\<close> with
  \<^verbatim>\<open>except: continue\<close>.\<close>

fun nighttime_loop :: "lib \<Rightarrow> point list \<Rightarrow> nat \<Rightarrow> nat" where
  "nighttime_loop L [] nighttime_count = nighttime_count"
| "nighttime_loop L (loc # rest) nighttime_count =
     (case parse_datetime L loc of
        Inl e \<Rightarrow> nighttime_loop L rest nighttime_count
      | Inr dt \<Rightarrow>
          if 22 \<le> dt_hour dt \<or> dt_hour dt < 5
          then nighttime_loop L rest (nighttime_count + 1)
          else nighttime_loop L rest nighttime_count)"

text \<open>The sort at the head of the function (its \<^verbatim>\<open>except\<close> branch falls back to the input
  order), the filter on present coordinates, and the distance loop.\<close>

definition travel_distances :: "lib \<Rightarrow> point list \<Rightarrow> py_error + real \<times> real" where
  "travel_distances L locations_data =
     (let sorted_data =
            (case sorted_by_datetime L
                    (filter (\<lambda>loc. truthy_str (datetime loc)) locations_data) of
               Inl e \<Rightarrow> locations_data
             | Inr s \<Rightarrow> s);
          valid_data =
            filter (\<lambda>loc. latitude loc \<noteq> None \<and> longitude loc \<noteq> None) sorted_data
      in distance_loop L valid_data (0, 0))"

text \<open>The four increments of \<^verbatim>\<open>risk_score\<close>.\<close>

definition long_range_points :: "real \<Rightarrow> int" where
  "long_range_points total_distance = (if 300 < total_distance then 20 else 0)"

definition jump_points :: "real \<Rightarrow> int" where
  "jump_points max_jump = (if 200 < max_jump then 15 else 0)"

definition visit_points :: "(real \<times> real) list \<Rightarrow> int" where
  "visit_points coords = (if list_ex (\<lambda>kc. 3 < snd kc) (counter coords) then 15 else 0)"

definition nighttime_points :: "lib \<Rightarrow> point list \<Rightarrow> int" where
  "nighttime_points L locations_data =
     (let nighttime_count = nighttime_loop L locations_data 0
      in if 0 < length locations_data \<and>
            1 / 2 < real nighttime_count / real (length locations_data)
         then 20 else 0)"

definition level_of :: "int \<Rightarrow> string" where
  "level_of score =
     (if 40 \<le> score then ''High'' else if 20 \<le> score then ''Medium'' else ''Low'')"

definition calculate_risk_score :: "lib \<Rightarrow> point list \<Rightarrow> py_error + risk_assessment" where
  "calculate_risk_score L locations_data =
     (if locations_data = [] then Inr \<lparr>risk_score = 0, risk_level = ''Low''\<rparr>
      else
        case travel_distances L locations_data of
          Inl e \<Rightarrow> Inl e
        | Inr (total_distance, max_jump) \<Rightarrow>
            (case try_map rounded_coord locations_data of
               Inl e \<Rightarrow> Inl e
             | Inr coords \<Rightarrow>
                 let score = long_range_points total_distance + jump_points max_jump +
                             visit_points coords + nighttime_points L locations_data
                 in Inr \<lparr>risk_score = score, risk_level = level_of score\<rparr>))"

section \<open>\<^verbatim>\<open>stats_module.py\<close>\<close>

record travel_statistics =
  total_distance_km :: real
  unique_locations_count :: nat
  most_visited_location :: string
  average_movement_km :: real
  total_movements :: nat

definition radians :: "real \<Rightarrow> real" where
  "radians d = d * pi / 180"

text \<open>\<^verbatim>\<open>math.atan2(y, x)\<close>.\<close>

definition atan2 :: "real \<Rightarrow> real \<Rightarrow> real" where
  "atan2 y x =
     (if 0 < x then arctan (y / x)
      else if x < 0 then (if 0 \<le> y then arctan (y / x) + pi else arctan (y / x) - pi)
      else if 0 < y then pi / 2 else if y < 0 then - (pi / 2) else 0)"

text \<open>The local function \<^verbatim>\<open>haversine\<close>. Its guard \<^verbatim>\<open>if not p1 or not p2\<close> never fires, since
  both arguments are tuples of two components; \<^verbatim>\<open>math.radians\<close> raises \<^verbatim>\<open>TypeError\<close> on
  \<^verbatim>\<open>None\<close>.\<close>

definition haversine :: "real option \<times> real option \<Rightarrow> real option \<times> real option \<Rightarrow> py_error + real" where
  "haversine p1 p2 =
     (case (fst p1, snd p1, fst p2, snd p2) of
        (Some la1, Some lo1, Some la2, Some lo2) \<Rightarrow>
          (let R = 6371;
               lat1 = radians la1; lon1 = radians lo1;
               lat2 = radians la2; lon2 = radians lo2;
               dlat = lat2 - lat1;
               dlon = lon2 - lon1;
               a = (sin (dlat / 2))\<^sup>2 + cos lat1 * cos lat2 * (sin (dlon / 2))\<^sup>2;
               c = 2 * atan2 (sqrt a) (sqrt (1 - a))
           in Inr (R * c))
      | _ \<Rightarrow> Inl TypeError)"

text \<open>The loop \<^verbatim>\<open>for i in range(len(valid_points) - 1)\<close> with its accumulators
  \<^verbatim>\<open>total_distance\<close> and \<^verbatim>\<open>movements\<close>.\<close>

fun movement_loop :: "point list \<Rightarrow> real \<times> nat \<Rightarrow> py_error + real \<times> nat" where
  "movement_loop (a # b # rest) (total_distance, movements) =
     (case haversine (latitude a, longitude a) (latitude b, longitude b) of
        Inl e \<Rightarrow> Inl e
      | Inr dist_km \<Rightarrow> movement_loop (b # rest) (total_distance + dist_km, movements + 1))"
| "movement_loop ps acc = Inr acc"

text \<open>\<^verbatim>\<open>counts.most_common(1)[0]\<close>: the first key, in insertion order, with the largest count.\<close>

fun most_common1 :: "('a \<times> nat) list \<Rightarrow> ('a \<times> nat) option" where
  "most_common1 [] = None"
| "most_common1 (kc # rest) =
     (case most_common1 rest of
        None \<Rightarrow> Some kc
      | Some best \<Rightarrow> if snd kc < snd best then Some best else Some kc)"

text \<open>The search for a landmark name over the unfiltered \<^verbatim>\<open>locations_data\<close>. The second
  \<^verbatim>\<open>round\<close> is evaluated only when the first comparison holds (\<^verbatim>\<open>and\<close> short-circuits).\<close>

fun landmark_loop :: "real \<times> real \<Rightarrow> point list \<Rightarrow> string option \<Rightarrow> py_error + string option" where
  "landmark_loop top_coord [] name = Inr name"
| "landmark_loop top_coord (loc # rest) name =
     (case latitude loc of None \<Rightarrow> Inl TypeError
      | Some la \<Rightarrow>
          if py_round 4 la = fst top_coord then
            (case longitude loc of None \<Rightarrow> Inl TypeError
             | Some lo \<Rightarrow>
                 if py_round 4 lo = snd top_coord then
                   (if truthy_str (landmark_name loc) then Inr (landmark_name loc)
                    else landmark_loop top_coord rest (landmark_name loc))
                 else landmark_loop top_coord rest name)
          else landmark_loop top_coord rest name)"

text \<open>\<^verbatim>\<open>str\<close> of a non-negative integer.\<close>

fun str_nat :: "nat \<Rightarrow> string" where
  "str_nat n =
     (if n < 10 then [char_of (48 + n)] else str_nat (n div 10) @ [char_of (48 + n mod 10)])"

definition most_visited_label :: "lib \<Rightarrow> real \<times> real \<Rightarrow> nat \<Rightarrow> string option \<Rightarrow> string" where
  "most_visited_label L top_coord cnt name =
     (let loc_str =
            (if truthy_str name then (case name of Some s \<Rightarrow> s | None \<Rightarrow> [])
             else ''Lat: '' @ float_str L (FloatVal (fst top_coord)) @
                  '', Lng: '' @ float_str L (FloatVal (snd top_coord)))
      in if 1 < cnt then loc_str @ '' ('' @ str_nat cnt @ '' visits)'' else loc_str)"

definition generate_travel_statistics :: "lib \<Rightarrow> point list \<Rightarrow> py_error + travel_statistics" where
  "generate_travel_statistics L locations_data =
     (if locations_data = [] then
        Inr \<lparr>total_distance_km = 0, unique_locations_count = 0,
             most_visited_location = ''None'', average_movement_km = 0,
             total_movements = 0\<rparr>
      else
        let valid_points =
              filter (\<lambda>p. latitude p \<noteq> None \<and> longitude p \<noteq> None) locations_data
        in case movement_loop valid_points (0, 0) of
             Inl e \<Rightarrow> Inl e
           | Inr (total_distance, movements) \<Rightarrow>
        (case try_map rounded_coord valid_points of
             Inl e \<Rightarrow> Inl e
           | Inr coords \<Rightarrow>
        (case (case most_common1 (counter coords) of
                 None \<Rightarrow> Inr ''None''
               | Some (top_coord, cnt) \<Rightarrow>
                   (case landmark_loop top_coord locations_data None of
                      Inl e \<Rightarrow> Inl e
                    | Inr name \<Rightarrow> Inr (most_visited_label L top_coord cnt name))) of
             Inl e \<Rightarrow> Inl e
           | Inr most_visited \<Rightarrow>
               let avg_movement =
                     (if 0 < movements then total_distance / real movements else 0)
               in Inr \<lparr>total_distance_km = py_round 2 total_distance,
                       unique_locations_count = card (set coords),
                       most_visited_location = most_visited,
                       average_movement_km = py_round 2 avg_movement,
                       total_movements = movements\<rparr>)))"

section \<open>Validity of a point, as the specification words it\<close>

definition coordinate_valid :: "point \<Rightarrow> bool" where
  "coordinate_valid p \<longleftrightarrow> latitude p \<noteq> None \<and> longitude p \<noteq> None"

definition time_valid :: "lib \<Rightarrow> point \<Rightarrow> bool" where
  "time_valid L p = (case parse_datetime L p of Inl e \<Rightarrow> False | Inr t \<Rightarrow> True)"

text \<open>The sort key of a point whose timestamp parses.\<close>

definition instant_of :: "lib \<Rightarrow> point \<Rightarrow> int" where
  "instant_of L p = (case parse_datetime L p of Inl e \<Rightarrow> 0 | Inr t \<Rightarrow> dt_instant t)"

text \<open>The nighttime condition in the specification's words: the points with a parseable
  timestamp whose hour is in \<open>[22, 24)\<close> or \<open>[0, 5)\<close>, over all points.\<close>

definition night_point :: "lib \<Rightarrow> point \<Rightarrow> bool" where
  "night_point L p =
     (case parse_datetime L p of
        Inl e \<Rightarrow> False
      | Inr t \<Rightarrow> (22 \<le> dt_hour t \<and> dt_hour t < 24) \<or> dt_hour t < 5)"

definition night_ratio :: "lib \<Rightarrow> point list \<Rightarrow> real" where
  "night_ratio L ps = real (length (filter (night_point L) ps)) / real (length ps)"

text \<open>The time between two parsed timestamps, in hours.\<close>

definition hours_between :: "dtime \<Rightarrow> dtime \<Rightarrow> real" where
  "hours_between t1 t2 = \<bar>of_int (dt_instant t2 - dt_instant t1)\<bar> / 1000000 / 3600"

section \<open>A sample interpretation of the library functions\<close>

text \<open>
  To run the model on concrete inputs the library functions need values. \<open>sample_parse\<close>
  gives the naive datetimes that \<^verbatim>\<open>dateutil\<close> returns for a few timestamps in the format the
  extractor produces (instants counted from 2024-01-01 00:00:00) and rejects every other
  string, among them \<^verbatim>\<open>"garbage"\<close> and the empty string, which \<^verbatim>\<open>dateutil\<close> rejects too.
  \<open>sample_geodesic\<close> is exact between coincident points (distance 0) and refuses a
  latitude outside \<open>[-90, 90]\<close> as \<^verbatim>\<open>geopy\<close> does; between distinct points it returns the
  fixed distance 1000.004 km, a placeholder. \<open>sample_float_str\<close> prints \<^verbatim>\<open>inf\<close> and the
  decimals of a number with at most four fractional digits.
\<close>

definition naive :: "int \<Rightarrow> nat \<Rightarrow> dtime" where
  "naive seconds h = \<lparr>dt_instant = seconds * 1000000, dt_hour = h, dt_aware = False\<rparr>"

definition sample_parse :: "string \<Rightarrow> py_error + dtime" where
  "sample_parse s =
     (if s = ''2024-01-01 00:00:00'' then Inr (naive 0 0)
      else if s = ''2024-01-01 00:00:01'' then Inr (naive 1 0)
      else if s = ''2024-01-01 01:00:00'' then Inr (naive 3600 1)
      else if s = ''2024-01-01 12:00:00'' then Inr (naive 43200 12)
      else if s = ''2024-01-01 23:30:00'' then Inr (naive 84600 23)
      else Inl ValueError)"

definition sample_geodesic ::
    "real option \<times> real option \<Rightarrow> real option \<times> real option \<Rightarrow> py_error + real" where
  "sample_geodesic c1 c2 =
     (case (fst c1, snd c1, fst c2, snd c2) of
        (Some la1, Some lo1, Some la2, Some lo2) \<Rightarrow>
          if 90 < \<bar>la1\<bar> \<or> 90 < \<bar>la2\<bar> then Inl ValueError
          else if la1 = la2 \<and> lo1 = lo2 then Inr 0
          else Inr (1000004 / 1000)
      | _ \<Rightarrow> Inl TypeError)"

definition frac_digits :: "nat \<Rightarrow> string" where
  "frac_digits f =
     (let d = (\<lambda>k. char_of (48 + k))
      in if f mod 1000 = 0 then [d (f div 1000)]
         else if f mod 100 = 0 then [d (f div 1000), d (f div 100 mod 10)]
         else if f mod 10 = 0 then [d (f div 1000), d (f div 100 mod 10), d (f div 10 mod 10)]
         else [d (f div 1000), d (f div 100 mod 10), d (f div 10 mod 10), d (f mod 10)])"

definition sample_float_str :: "pyfloat \<Rightarrow> string" where
  "sample_float_str v =
     (case v of
        FloatInf \<Rightarrow> ''inf''
      | FloatVal x \<Rightarrow>
          (let n = nat \<lfloor>\<bar>x\<bar> * 10000\<rfloor>
           in (if x < 0 then ''-'' else []) @ str_nat (n div 10000) @ ''.'' @
              frac_digits (n mod 10000)))"

definition sample_lib :: lib where
  "sample_lib = \<lparr>parse = sample_parse, geodesic = sample_geodesic, float_str = sample_float_str\<rparr>"

definition mk_point :: "string \<Rightarrow> real option \<Rightarrow> real option \<Rightarrow> string option \<Rightarrow> point" where
  "mk_point name la lo ts =
     \<lparr>filename = name, latitude = la, longitude = lo, datetime = ts, landmark_name = None\<rparr>"

text \<open>Sample records: two photos taken at the same place and time, one taken an hour
  later elsewhere, one whose timestamp is not a date, and one without coordinates.\<close>

definition photo_a :: point where
  "photo_a = mk_point ''a.jpg'' (Some 10) (Some 10) (Some ''2024-01-01 00:00:00'')"

definition photo_b :: point where
  "photo_b = mk_point ''b.jpg'' (Some 10) (Some 10) (Some ''2024-01-01 00:00:00'')"

definition photo_c :: point where
  "photo_c = mk_point ''c.jpg'' (Some (1904 / 100)) (Some 10) (Some ''2024-01-01 01:00:00'')"

definition photo_equator :: point where
  "photo_equator = mk_point ''f.jpg'' (Some 0) (Some 10) (Some ''2024-01-01 12:00:00'')"

definition photo_bad :: point where
  "photo_bad = mk_point ''d.jpg'' (Some 10) (Some 10) (Some ''garbage'')"

definition photo_nogps :: point where
  "photo_nogps = mk_point ''e.jpg'' None None (Some ''2024-01-01 12:00:00'')"

section \<open>Properties of the timeline analyzer\<close>

subsection \<open>The sort and the shape of the timeline\<close>

lemma try_map_Inr:
  "try_map f xs = Inr ys \<Longrightarrow> list_all2 (\<lambda>x y. f x = Inr y) xs ys"
  by (induction xs arbitrary: ys) (auto split: sum.splits)

lemma try_map_Inl:
  "x \<in> set xs \<Longrightarrow> f x = Inl e \<Longrightarrow> \<exists>e'. try_map f xs = Inl e'"
  by (induction xs) (auto split: sum.splits)

lemma try_map_total:
  "(\<And>x. x \<in> set xs \<Longrightarrow> \<exists>y. f x = Inr y) \<Longrightarrow> \<exists>ys. try_map f xs = Inr ys"
proof (induction xs)
  case Nil
  then show ?case by simp
next
  case (Cons x xs)
  then obtain y where "f x = Inr y" by fastforce
  moreover from Cons obtain ys where "try_map f xs = Inr ys" by fastforce
  ultimately show ?case by simp
qed

lemma insort_key_zip:
  assumes "\<And>z. z \<in> set (z0 # zs) \<Longrightarrow> f z = g (snd z)"
  shows "map snd (insort_key f z0 zs) = insort_key g (snd z0) (map snd zs)"
  using assms by (induction zs) auto

lemma sort_key_zip:
  assumes "\<And>z. z \<in> set zs \<Longrightarrow> f z = g (snd z)"
  shows "map snd (sort_key f zs) = sort_key g (map snd zs)"
  using assms
proof (induction zs)
  case Nil
  then show ?case by simp
next
  case (Cons z zs)
  have "map snd (sort_key f (z # zs)) = map snd (insort_key f z (sort_key f zs))"
    by simp
  also have "\<dots> = insort_key g (snd z) (map snd (sort_key f zs))"
    by (rule insort_key_zip) (use Cons.prems in auto)
  also have "\<dots> = insort_key g (snd z) (sort_key g (map snd zs))"
    using Cons by simp
  finally show ?case by simp
qed

lemma sorted_by_datetime_Inr:
  assumes "sorted_by_datetime L ps = Inr sp"
  shows "sp = sort_key (instant_of L) ps" and "\<forall>p\<in>set ps. time_valid L p"
proof -
  from assms obtain ks where ks: "try_map (parse_datetime L) ps = Inr ks"
    and sp: "sp = map snd (sort_key (\<lambda>kp. dt_instant (fst kp)) (zip ks ps))"
    by (auto simp: sorted_by_datetime_def split: sum.splits if_splits)
  have rel: "list_all2 (\<lambda>p k. parse_datetime L p = Inr k) ps ks"
    using try_map_Inr[OF ks] .
  then have len: "length ks = length ps"
    by (simp add: list_all2_lengthD)
  have key: "dt_instant (fst z) = instant_of L (snd z)" if "z \<in> set (zip ks ps)" for z
  proof -
    from that obtain i where "i < length ps" "z = (ks ! i, ps ! i)"
      using len by (auto simp: set_zip)
    with rel show ?thesis
      by (simp add: list_all2_conv_all_nth instant_of_def)
  qed
  have "sp = sort_key (instant_of L) (map snd (zip ks ps))"
    unfolding sp by (rule sort_key_zip) (rule key)
  then show "sp = sort_key (instant_of L) ps"
    using len by simp
  show "\<forall>p\<in>set ps. time_valid L p"
  proof
    fix p assume "p \<in> set ps"
    then obtain i where "i < length ps" "p = ps ! i"
      by (auto simp: in_set_conv_nth)
    with rel show "time_valid L p"
      by (simp add: list_all2_conv_all_nth time_valid_def)
  qed
qed

lemma point_analyse_at: "point (analyse_at L sp i) = sp ! i"
  by (simp add: analyse_at_def Let_def split: velocity_result.splits)

lemma analyze_timeline_Timeline:
  assumes "analyze_timeline L points = Timeline es n"
  shows "map point es = sort_key (instant_of L) (filter valid_point points)"
    and "n = length (filter valid_point points)"
    and "\<forall>p\<in>set (filter valid_point points). time_valid L p"
    and "\<forall>i<length es. es ! i = analyse_at L (map point es) i"
proof -
  from assms obtain sp where sp: "sorted_by_datetime L (filter valid_point points) = Inr sp"
    and es: "es = map (analyse_at L sp) [0..<length sp]"
    and n: "n = length (filter valid_point points)"
    by (auto simp: analyze_timeline_def Let_def split: sum.splits)
  have pts: "map point es = sp"
    unfolding es by (simp add: point_analyse_at o_def map_nth)
  show "map point es = sort_key (instant_of L) (filter valid_point points)"
    using pts sorted_by_datetime_Inr(1)[OF sp] by simp
  show "n = length (filter valid_point points)" by (rule n)
  show "\<forall>p\<in>set (filter valid_point points). time_valid L p"
    by (rule sorted_by_datetime_Inr(2)[OF sp])
  have "es ! i = analyse_at L sp i" if "i < length es" for i
    using that unfolding es by simp
  then show "\<forall>i<length es. es ! i = analyse_at L (map point es) i"
    unfolding pts by simp
qed

subsection \<open>Evaluation on the sample records\<close>

lemmas sample_defs = sample_lib_def sample_parse_def sample_geodesic_def sample_float_str_def
  mk_point_def photo_a_def photo_b_def photo_c_def photo_bad_def photo_nogps_def photo_equator_def
  naive_def

lemmas analyzer_defs = analyze_timeline_def valid_point_def truthy_num_def truthy_str_def
  sorted_by_datetime_def parse_datetime_def comparable_def analyse_at_def
  calculate_velocity_def dt_sub_def total_seconds_def flag_reason_def

lemma round_half_even_of_int [simp]: "round_half_even (of_int n) = n"
  by (simp add: round_half_even_def)

lemma round_half_even_0 [simp]: "round_half_even 0 = 0"
  using round_half_even_of_int[of 0] by simp

lemma py_round_0 [simp]: "py_round k 0 = 0"
  by (simp add: py_round_def)

lemma py_round_idem: "py_round k (py_round k x) = py_round k x"
  by (simp add: py_round_def)

lemma run_duplicate_photos:
  "analyze_timeline sample_lib [photo_a, photo_b] =
     Timeline
       [\<lparr>point = photo_a, flagged = False, reason = None, movement_metrics = None\<rparr>,
        \<lparr>point = photo_b, flagged = True,
         reason = Some ''Impossible velocity detected: inf km/h'',
         movement_metrics =
           Some \<lparr>distance_km = 0, time_diff_hours = 0, speed_kmh = FloatInf\<rparr>\<rparr>]
       2"
  by (simp add: sample_defs analyzer_defs)

lemma run_hour_apart:
  "analyze_timeline sample_lib [photo_c, photo_a] =
     Timeline
       [\<lparr>point = photo_a, flagged = False, reason = None, movement_metrics = None\<rparr>,
        \<lparr>point = photo_c, flagged = False, reason = None,
         movement_metrics =
           Some \<lparr>distance_km = 1000, time_diff_hours = 1, speed_kmh = FloatVal 1000\<rparr>\<rparr>]
       2"
  by (simp add: sample_defs analyzer_defs py_round_def round_half_even_def)

subsection \<open>The first entry\<close>

lemma analyse_at_0:
  "analyse_at L sp 0 =
     \<lparr>point = sp ! 0, flagged = False, reason = None, movement_metrics = None\<rparr>"
  by (simp add: analyse_at_def)

text \<open>
  C9. Whenever \<^verbatim>\<open>analyze_timeline\<close> returns a non-empty timeline, its first entry carries
  no movement metrics, is not flagged and has no reason.
\<close>

theorem first_entry_unflagged:
  assumes "analyze_timeline L points = Timeline es n" and "es \<noteq> []"
  shows "movement_metrics (hd es) = None \<and> \<not> flagged (hd es) \<and> reason (hd es) = None"
proof -
  have "0 < length es" using assms(2) by simp
  then have "es ! 0 = analyse_at L (map point es) 0"
    using analyze_timeline_Timeline(4)[OF assms(1)] by blast
  then have "hd es = analyse_at L (map point es) 0"
    using assms(2) by (simp add: hd_conv_nth)
  then show ?thesis by (simp add: analyse_at_0)
qed

theorem first_entry_unflagged_witness:
  "chronological_timeline (analyze_timeline sample_lib [photo_a, photo_b]) \<noteq> [] \<and>
   movement_metrics (hd (chronological_timeline (analyze_timeline sample_lib [photo_a, photo_b])))
     = None \<and>
   \<not> flagged (hd (chronological_timeline (analyze_timeline sample_lib [photo_a, photo_b])))"
proof -
  note run = run_duplicate_photos
  have nonempty: "chronological_timeline (analyze_timeline sample_lib [photo_a, photo_b]) \<noteq> []"
    by (simp add: run)
  have "analyze_timeline sample_lib [photo_a, photo_b] =
          Timeline (chronological_timeline (analyze_timeline sample_lib [photo_a, photo_b])) 2"
    by (simp add: run)
  from first_entry_unflagged[OF this nonempty] nonempty show ?thesis by simp
qed

subsection \<open>A failing sort\<close>

text \<open>
  C7. If a point that passes the filter of \<^verbatim>\<open>analyze_timeline\<close> has a timestamp that the
  parser rejects, the sort raises, and the function returns the error result that carries
  the original input list, in its input order; it returns no timeline and raises nothing.
\<close>

theorem sort_failure_returns_input:
  assumes "p \<in> set points" and "valid_point p" and "parse_datetime L p = Inl e"
  shows "analyze_timeline L points = DateCastingError points"
proof -
  have "p \<in> set (filter valid_point points)" using assms by simp
  then obtain e' where "try_map (parse_datetime L) (filter valid_point points) = Inl e'"
    using try_map_Inl assms(3) by fastforce
  then show ?thesis
    by (simp add: analyze_timeline_def sorted_by_datetime_def)
qed

theorem sort_failure_returns_input_witness:
  "photo_bad \<in> set [photo_c, photo_bad, photo_a] \<and> valid_point photo_bad \<and>
   parse_datetime sample_lib photo_bad = Inl ValueError \<and>
   analyze_timeline sample_lib [photo_c, photo_bad, photo_a] =
     DateCastingError [photo_c, photo_bad, photo_a]"
proof -
  have mem: "photo_bad \<in> set [photo_c, photo_bad, photo_a]" by simp
  have ok: "valid_point photo_bad"
    by (simp add: sample_defs valid_point_def truthy_num_def truthy_str_def)
  have bad: "parse_datetime sample_lib photo_bad = Inl ValueError"
    by (simp add: sample_defs parse_datetime_def)
  from sort_failure_returns_input[OF mem ok bad] mem ok bad show ?thesis by simp
qed

end
